theory Spec2Isabelle
  imports Complex_Main "HOL-Library.Word"
begin

section \<open>Parsed JSON and the Python operations of app.py on it\<close>

text \<open>
  \<open>response.json()\<close> yields a Python value built from \<open>None\<close>, booleans, numbers,
  strings, lists and dicts. app.py never checks the shape of that value: it calls
  \<open>.get\<close>, indexes, iterates and calls string methods, each of which raises on a value
  of the wrong kind. The model keeps every such raise as an \<open>Inl\<close> result.

  A dict is an association list read with \<open>map_of\<close> (a parsed dict lists each key
  once). A float is given by the rational number it denotes: the functions below only
  test numbers for truth and hand them on. The values NaN and Infinity, which the decoder
  also accepts and which are true, are left out. A Python \<open>str\<close> is an Isabelle
  \<open>string\<close> whose characters stand for the code points 0 to 255; on these \<open>lower\<close>
  and \<open>strip\<close> below agree with \<open>str.lower\<close> and \<open>str.strip\<close>.
\<close>

datatype json =
    JNull
  | JBool bool
  | JInt int
  | JFloat rat
  | JStr string
  | JArr "json list"
  | JObj "(string \<times> json) list"

datatype net_error = Timeout | ConnectionError | OtherRequestError

datatype error =
    AttributeError
  | TypeError
  | KeyError
  | IndexError
  | ValueError
  | UnidentifiedImageError
  | RuntimeError string
  | RequestException net_error
  | HTTPError nat
  | JSONDecodeError

text \<open>Truth value testing, as \<open>not x\<close> and \<open>x or y\<close> use it.\<close>

fun truthy :: "json \<Rightarrow> bool" where
  "truthy JNull = False"
| "truthy (JBool b) = b"
| "truthy (JInt i) = (i \<noteq> 0)"
| "truthy (JFloat r) = (r \<noteq> 0)"
| "truthy (JStr s) = (s \<noteq> [])"
| "truthy (JArr xs) = (xs \<noteq> [])"
| "truthy (JObj kvs) = (kvs \<noteq> [])"

definition py_or :: "json \<Rightarrow> json \<Rightarrow> json" where
  "py_or a b = (if truthy a then a else b)"

text \<open>\<open>x.get(k, d)\<close>: only a dict has the method.\<close>

fun dict_get :: "json \<Rightarrow> string \<Rightarrow> json \<Rightarrow> error + json" where
  "dict_get (JObj kvs) k d = Inr (case map_of kvs k of None \<Rightarrow> d | Some v \<Rightarrow> v)"
| "dict_get _ k d = Inl AttributeError"

text \<open>
  \<open>x[0]\<close>: the first element of a list, the first character of a string; on a dict
  it is a lookup of the key \<open>0\<close>, which no JSON object has; other values are not
  subscriptable.
\<close>

fun getitem0 :: "json \<Rightarrow> error + json" where
  "getitem0 (JArr (x # xs)) = Inr x"
| "getitem0 (JArr []) = Inl IndexError"
| "getitem0 (JStr (c # cs)) = Inr (JStr [c])"
| "getitem0 (JStr []) = Inl IndexError"
| "getitem0 (JObj kvs) = Inl KeyError"
| "getitem0 _ = Inl TypeError"

text \<open>\<open>for det in x\<close>: the elements of a list, the characters of a string, the keys of a dict.\<close>

fun py_iter :: "json \<Rightarrow> error + json list" where
  "py_iter (JArr xs) = Inr xs"
| "py_iter (JStr s) = Inr (map (\<lambda>c. JStr [c]) s)"
| "py_iter (JObj kvs) = Inr (map (\<lambda>kv. JStr (fst kv)) kvs)"
| "py_iter _ = Inl TypeError"

text \<open>\<open>str.lower\<close> and \<open>str.strip\<close> on code points below 256.\<close>

definition lower_char :: "char \<Rightarrow> char" where
  "lower_char c =
     (let n = (of_char c :: nat)
      in if (65 \<le> n \<and> n \<le> 90) \<or> (192 \<le> n \<and> n \<le> 222 \<and> n \<noteq> 215)
         then char_of (n + 32) else c)"

definition lower :: "string \<Rightarrow> string" where
  "lower s = map lower_char s"

definition isspace :: "char \<Rightarrow> bool" where
  "isspace c =
     (let n = (of_char c :: nat)
      in (9 \<le> n \<and> n \<le> 13) \<or> (28 \<le> n \<and> n \<le> 32) \<or> n = 133 \<or> n = 160)"

definition strip :: "string \<Rightarrow> string" where
  "strip s = rev (dropWhile isspace (rev (dropWhile isspace s)))"

fun str_lower :: "json \<Rightarrow> error + string" where
  "str_lower (JStr s) = Inr (lower s)"
| "str_lower _ = Inl AttributeError"

fun str_strip :: "json \<Rightarrow> error + string" where
  "str_strip (JStr s) = Inr (strip s)"
| "str_strip _ = Inl AttributeError"

text \<open>\<open>any(f(det) for det in xs)\<close>: stops at the first true element, or at the first raise.\<close>

fun py_any :: "(json \<Rightarrow> error + bool) \<Rightarrow> json list \<Rightarrow> error + bool" where
  "py_any f [] = Inr False"
| "py_any f (x # xs) =
     (case f x of
        Inl e \<Rightarrow> Inl e
      | Inr b \<Rightarrow> if b then Inr True else py_any f xs)"

section \<open>interpret_results\<close>

definition normal_labels :: "string set" where
  "normal_labels = {''normal kidney'', ''normal_kidney'', ''normal''}"

text \<open>The element of the generator: \<open>(det.get("name") or "").lower() not in normal_labels\<close>.\<close>

definition non_normal :: "json \<Rightarrow> error + bool" where
  "non_normal det =
     (case dict_get det ''name'' JNull of
        Inl e \<Rightarrow> Inl e
      | Inr n \<Rightarrow>
          (case str_lower (py_or n (JStr [])) of
             Inl e \<Rightarrow> Inl e
           | Inr l \<Rightarrow> Inr (l \<notin> normal_labels)))"

definition has_non_normal :: "json list \<Rightarrow> error + bool" where
  "has_non_normal results = py_any non_normal results"

definition interpret_results :: "json \<Rightarrow> error + (string \<times> json \<times> bool)" where
  "interpret_results result_json =
     (case dict_get result_json ''images'' (JArr []) of
        Inl e \<Rightarrow> Inl e
      | Inr images \<Rightarrow>
          if \<not> truthy images then Inr (''No prediction available'', JArr [], False)
          else
            (case getitem0 images of
               Inl e \<Rightarrow> Inl e
             | Inr first \<Rightarrow>
                 (case dict_get first ''results'' (JArr []) of
                    Inl e \<Rightarrow> Inl e
                  | Inr results \<Rightarrow>
                      if \<not> truthy results
                      then Inr (''Normal Kidney (no stones detected)'', results, False)
                      else
                        (case py_iter results of
                           Inl e \<Rightarrow> Inl e
                         | Inr dets \<Rightarrow>
                             (case has_non_normal dets of
                                Inl e \<Rightarrow> Inl e
                              | Inr b \<Rightarrow>
                                  if b then Inr (''Kidney Stone Detected'', results, True)
                                  else Inr (''Normal Kidney (no stones detected)'', results, False))))))"

section \<open>draw_bounding_boxes\<close>

text \<open>
  Pillow is not part of the repository, so its calls are parameters: \<open>Image_open\<close>
  stands for \<open>Image.open(BytesIO(image_bytes))\<close>, \<open>convert\<close> for \<open>Image.convert\<close>
  and \<open>rectangle\<close> for \<open>ImageDraw.rectangle\<close> acting on the image; each may raise.
  One call of \<open>rectangle\<close> is recorded with the arguments of Pillow's signature
  \<open>rectangle(xy, fill=None, outline=None, width=1)\<close>.
\<close>

record rect_call =
  xy :: "json list"
  fill :: "string option"
  outline :: "string option"
  width :: int

text \<open>
  The body of the loop, for one \<open>det\<close>. The read of \<open>confidence\<close>, whose value is
  not used, is left out: at that point \<open>det\<close> is known to be a dict, so it cannot raise.
\<close>

definition draw_det :: "('img \<Rightarrow> rect_call \<Rightarrow> error + 'img) \<Rightarrow> 'img \<Rightarrow> json \<Rightarrow> error + 'img" where
  "draw_det rectangle img det =
     (case dict_get det ''box'' JNull of
        Inl e \<Rightarrow> Inl e
      | Inr b \<Rightarrow>
          (let box = py_or b (JObj []) in
           case dict_get box ''x1'' JNull of
             Inl e \<Rightarrow> Inl e
           | Inr x1 \<Rightarrow>
          (case dict_get box ''x2'' JNull of
             Inl e \<Rightarrow> Inl e
           | Inr x2 \<Rightarrow>
          (case dict_get box ''y1'' JNull of
             Inl e \<Rightarrow> Inl e
           | Inr y1 \<Rightarrow>
          (case dict_get box ''y2'' JNull of
             Inl e \<Rightarrow> Inl e
           | Inr y2 \<Rightarrow>
               if JNull \<in> set [x1, x2, y1, y2] then Inr img
               else
                 (case dict_get det ''name'' JNull of
                    Inl e \<Rightarrow> Inl e
                  | Inr n \<Rightarrow>
                      (case str_strip (py_or n (JStr ''object'')) of
                         Inl e \<Rightarrow> Inl e
                       | Inr label \<Rightarrow>
                           (let color = (if lower label \<in> normal_labels then ''green'' else ''red'')
                            in rectangle img
                                 \<lparr>xy = [x1, y1, x2, y2], fill = None,
                                  outline = Some color, width = 3\<rparr>))))))))"

fun draw_loop :: "('img \<Rightarrow> rect_call \<Rightarrow> error + 'img) \<Rightarrow> 'img \<Rightarrow> json list \<Rightarrow> error + 'img" where
  "draw_loop rectangle img [] = Inr img"
| "draw_loop rectangle img (det # dets) =
     (case draw_det rectangle img det of
        Inl e \<Rightarrow> Inl e
      | Inr img' \<Rightarrow> draw_loop rectangle img' dets)"

definition draw_bounding_boxes ::
  "(8 word list \<Rightarrow> error + 'img) \<Rightarrow> ('img \<Rightarrow> string \<Rightarrow> error + 'img) \<Rightarrow>
    ('img \<Rightarrow> rect_call \<Rightarrow> error + 'img) \<Rightarrow> 8 word list \<Rightarrow> json \<Rightarrow> error + 'img" where
  "draw_bounding_boxes Image_open convert rectangle image_bytes detections =
     (case Image_open image_bytes of
        Inl e \<Rightarrow> Inl e
      | Inr opened \<Rightarrow>
          (case convert opened ''RGB'' of
             Inl e \<Rightarrow> Inl e
           | Inr img \<Rightarrow>
               (case py_iter (py_or detections (JArr [])) of
                  Inl e \<Rightarrow> Inl e
                | Inr dets \<Rightarrow> draw_loop rectangle img dets)))"

section \<open>call_ultralytics_api\<close>

text \<open>
  The network is a parameter \<open>post\<close> (one call of \<open>requests.post\<close>: an exception of
  \<open>requests\<close> or a response), and the requests handed to it are appended to a log that
  the function takes and returns. \<open>loads\<close> stands for the JSON decoder behind
  \<open>response.json()\<close>. The module constant \<open>API_KEY\<close> is read from the process
  environment \<open>env\<close> when the module is loaded.
\<close>

record http_request =
  url :: string
  headers :: "(string \<times> string) list"
  data :: "(string \<times> json) list"
  files :: "(string \<times> string \<times> 8 word list \<times> string) list"
  timeout :: nat

record http_response =
  status_code :: nat
  body :: string

definition API_URL :: string where
  "API_URL = ''https://predict.ultralytics.com''"

definition getenv :: "(string \<rightharpoonup> string) \<Rightarrow> string \<Rightarrow> string \<Rightarrow> string" where
  "getenv env k d = (case env k of None \<Rightarrow> d | Some v \<Rightarrow> v)"

definition API_KEY :: "(string \<rightharpoonup> string) \<Rightarrow> string" where
  "API_KEY env = getenv env ''ULTRALYTICS_API_KEY'' ''ba9e29dcecf5b19a768e56a4f616df5d03baeef036''"

definition MODEL_URL :: string where
  "MODEL_URL = ''https://hub.ultralytics.com/models/eAjS72HEB8er9T7UWut0''"

definition raise_for_status :: "http_response \<Rightarrow> error + unit" where
  "raise_for_status response =
     (if 400 \<le> status_code response \<and> status_code response < 600
      then Inl (HTTPError (status_code response)) else Inr ())"

definition call_ultralytics_api ::
  "(string \<rightharpoonup> string) \<Rightarrow> (http_request \<Rightarrow> net_error + http_response) \<Rightarrow>
    (string \<Rightarrow> json option) \<Rightarrow> 8 word list \<Rightarrow> http_request list \<Rightarrow>
    (error + json) \<times> http_request list" where
  "call_ultralytics_api env post loads image_bytes sent =
     (if API_KEY env = []
      then (Inl (RuntimeError
              ''Ultralytics API key is missing. Set ULTRALYTICS_API_KEY env var or edit app.py.''),
            sent)
      else
        (let request =
               \<lparr>url = API_URL,
                headers = [(''x-api-key'', API_KEY env)],
                data = [(''model'', JStr MODEL_URL), (''imgsz'', JInt 640),
                        (''conf'', JFloat (25 / 100)), (''iou'', JFloat (45 / 100))],
                files = [(''file'', ''upload.jpg'', image_bytes, ''image/jpeg'')],
                timeout = 60\<rparr>;
             sent' = sent @ [request]
         in case post request of
              Inl ne \<Rightarrow> (Inl (RequestException ne), sent')
            | Inr response \<Rightarrow>
                (case raise_for_status response of
                   Inl e \<Rightarrow> (Inl e, sent')
                 | Inr _ \<Rightarrow>
                     (case loads (body response) of
                        None \<Rightarrow> (Inl JSONDecodeError, sent')
                      | Some result_json \<Rightarrow> (Inr result_json, sent')))))"

section \<open>The shape of a detection\<close>

text \<open>
  A detection of the remote service is a JSON object whose \<open>name\<close>, when present and
  not null, is a string. Elements of any other shape make the string methods raise.
\<close>

fun is_detection :: "json \<Rightarrow> bool" where
  "is_detection (JObj kvs) =
     (case map_of kvs ''name'' of
        None \<Rightarrow> True
      | Some JNull \<Rightarrow> True
      | Some (JStr s) \<Rightarrow> True
      | Some _ \<Rightarrow> False)"
| "is_detection _ = False"

text \<open>A box object that lacks one of the four coordinates, or holds null for it.\<close>

definition coordinate_missing :: "(string \<times> json) list \<Rightarrow> bool" where
  "coordinate_missing bk =
     (\<exists>k \<in> set [''x1'', ''y1'', ''x2'', ''y2'']. map_of bk k = None \<or> map_of bk k = Some JNull)"

section \<open>A stand-in for Pillow on RGB and RGBA images\<close>

text \<open>
  To run the renderer on values, an image is given by its mode, its pixels (the band
  values of each) and the rectangle calls made on it. \<open>decode_to im\<close> is a decoder on
  whose input the bytes decode to \<open>im\<close>. \<open>convert_bands\<close> is the conversion to RGB of
  an image in mode RGB or RGBA: the mode becomes RGB and every pixel keeps its first
  three bands, so the alpha band of an RGBA image is dropped. \<open>record_rectangle\<close> keeps
  the call.
\<close>

record pil_image =
  mode :: string
  pixels :: "nat list list"
  drawn :: "rect_call list"

definition decode_to :: "pil_image \<Rightarrow> 8 word list \<Rightarrow> error + pil_image" where
  "decode_to im image_bytes = Inr im"

definition convert_bands :: "pil_image \<Rightarrow> string \<Rightarrow> error + pil_image" where
  "convert_bands im m =
     (if m = ''RGB'' \<and> (mode im = ''RGB'' \<or> mode im = ''RGBA'')
      then Inr (im\<lparr>mode := ''RGB'', pixels := map (take 3) (pixels im)\<rparr>)
      else Inl ValueError)"

definition record_rectangle :: "pil_image \<Rightarrow> rect_call \<Rightarrow> error + pil_image" where
  "record_rectangle im c = Inr (im\<lparr>drawn := drawn im @ [c]\<rparr>)"

section \<open>Facts about the label test\<close>

lemma non_normal_detection:
  "is_detection d \<Longrightarrow> \<exists>b. non_normal d = Inr b"
  by (cases d) (auto simp: non_normal_def py_or_def split: option.splits json.splits)

lemma py_any_all_defined:
  "\<forall>d \<in> set ds. \<exists>b. f d = Inr b \<Longrightarrow> py_any f ds = Inr (\<exists>d \<in> set ds. f d = Inr True)"
  by (induction ds) (auto split: sum.splits)

lemma has_non_normal_detections:
  assumes "list_all is_detection ds"
  shows "has_non_normal ds = Inr (\<exists>d \<in> set ds. non_normal d = Inr True)"
  unfolding has_non_normal_def
  by (rule py_any_all_defined) (use assms in \<open>auto simp: list_all_iff non_normal_detection\<close>)

lemma non_normal_named:
  "map_of kvs ''name'' = Some (JStr s) \<Longrightarrow>
     non_normal (JObj kvs) = Inr (lower s \<notin> normal_labels)"
  by (cases s) (auto simp: non_normal_def py_or_def lower_def normal_labels_def)

lemma non_normal_unnamed:
  "map_of kvs ''name'' = None \<or> map_of kvs ''name'' = Some JNull \<Longrightarrow>
     non_normal (JObj kvs) = Inr True"
  by (auto simp: non_normal_def py_or_def lower_def normal_labels_def)

text \<open>With a first group that holds a non-empty list, the verdict is decided by the label test alone.\<close>

lemma interpret_results_first_group:
  assumes "map_of resp ''images'' = Some (JArr (JObj grp # grps))"
      and "map_of grp ''results'' = Some (JArr (d # ds))"
  shows "interpret_results (JObj resp) =
           (case has_non_normal (d # ds) of
              Inl e \<Rightarrow> Inl e
            | Inr b \<Rightarrow>
                if b then Inr (''Kidney Stone Detected'', JArr (d # ds), True)
                else Inr (''Normal Kidney (no stones detected)'', JArr (d # ds), False))"
  using assms by (simp add: interpret_results_def)

text \<open>On a response of the documented shape the function returns: it raises only on other shapes.\<close>

lemma interpret_results_returns:
  assumes "map_of resp ''images'' = Some (JArr (JObj grp # grps))"
      and "map_of grp ''results'' = Some (JArr dets)"
      and "list_all is_detection dets"
  shows "\<exists>v. interpret_results (JObj resp) = Inr v"
proof (cases dets)
  case Nil
  with assms have "interpret_results (JObj resp) =
      Inr (''Normal Kidney (no stones detected)'', JArr [], False)"
    by (simp add: interpret_results_def)
  then show ?thesis ..
next
  case (Cons d ds)
  from assms(3) obtain b where "has_non_normal dets = Inr b"
    by (simp add: has_non_normal_detections)
  with assms(1,2) Cons have "interpret_results (JObj resp) =
      (if b then Inr (''Kidney Stone Detected'', JArr dets, True)
       else Inr (''Normal Kidney (no stones detected)'', JArr dets, False))"
    by (simp add: interpret_results_first_group)
  then show ?thesis
    by (cases b) auto
qed

text \<open>A positive answer of the label test can only come from a non-empty list.\<close>

lemma has_non_normal_True_list:
  assumes "truthy results" and "py_iter results = Inr dets" and "has_non_normal dets = Inr True"
  shows "\<exists>d ds. results = JArr (d # ds)"
proof (cases results)
  case (JArr xs)
  with assms(1) show ?thesis by (cases xs) auto
next
  case (JStr s)
  with assms show ?thesis
    by (cases s) (auto simp: has_non_normal_def non_normal_def)
next
  case (JObj kvs)
  with assms show ?thesis
    by (cases kvs) (auto simp: has_non_normal_def non_normal_def)
qed (use assms in auto)

section \<open>Facts about the drawing loop\<close>

lemma draw_det_skips:
  assumes "map_of kvs ''box'' = None \<or> map_of kvs ''box'' = Some JNull \<or>
           (\<exists>bk. map_of kvs ''box'' = Some (JObj bk) \<and> coordinate_missing bk)"
  shows "draw_det rectangle img (JObj kvs) = Inr img"
  using assms
  by (auto simp: draw_det_def py_or_def coordinate_missing_def split: option.splits)

lemma draw_loop_append:
  "draw_loop rectangle img (pre @ post) =
     (case draw_loop rectangle img pre of
        Inl e \<Rightarrow> Inl e
      | Inr img' \<Rightarrow> draw_loop rectangle img' post)"
  by (induction pre arbitrary: img) (auto split: sum.splits)

lemma draw_loop_skip:
  assumes "\<And>img. draw_det rectangle img d = Inr img"
  shows "draw_loop rectangle img (pre @ d # post) = draw_loop rectangle img (pre @ post)"
  by (simp add: draw_loop_append [of _ _ pre] assms split: sum.splits)

lemma py_iter_detections: "py_iter (py_or (JArr ds) (JArr [])) = Inr ds"
  by (cases ds) (simp_all add: py_or_def)



text \<open>A detection without a name is labelled \<open>object\<close> and outlined in red.\<close>

lemma draw_det_unnamed:
  assumes "map_of kvs ''box'' = Some (JObj bk)"
      and "map_of bk ''x1'' = Some x1" and "x1 \<noteq> JNull"
      and "map_of bk ''y1'' = Some y1" and "y1 \<noteq> JNull"
      and "map_of bk ''x2'' = Some x2" and "x2 \<noteq> JNull"
      and "map_of bk ''y2'' = Some y2" and "y2 \<noteq> JNull"
      and "map_of kvs ''name'' = None \<or> map_of kvs ''name'' = Some JNull"
  shows "draw_det rectangle img (JObj kvs) =
           rectangle img
             \<lparr>xy = [x1, y1, x2, y2], fill = None, outline = Some ''red'', width = 3\<rparr>"
proof -
  have bk: "bk \<noteq> []"
    using assms(2) by auto
  have obj: "lower (strip ''object'') \<notin> normal_labels"
    by (simp add: strip_def isspace_def lower_def lower_char_def normal_labels_def)
  from assms bk obj show ?thesis
    by (auto simp: draw_det_def py_or_def)
qed

section \<open>Facts about the credential\<close>

lemma API_KEY_unset:
  "env ''ULTRALYTICS_API_KEY'' = None \<Longrightarrow>
     API_KEY env = ''ba9e29dcecf5b19a768e56a4f616df5d03baeef036''"
  by (simp add: API_KEY_def getenv_def)

lemma call_ultralytics_api_sends_one:
  "API_KEY env \<noteq> [] \<Longrightarrow>
     length (snd (call_ultralytics_api env post loads image_bytes sent)) = Suc (length sent)"
  by (auto simp: call_ultralytics_api_def Let_def split: sum.splits option.splits)

section \<open>The verdict\<close>

text \<open>
  C1. When the first image group holds a list of detections and at least one of them has
  a name whose lower-cased form is outside the normal labels, \<open>interpret_results\<close>
  returns the message \<open>Kidney Stone Detected\<close>, the very list it was given, and
  \<open>True\<close>, whatever the other detections are named: one such label is enough.
\<close>

theorem interpret_results_positive:
  assumes "map_of resp ''images'' = Some (JArr (JObj grp # grps))"
      and "map_of grp ''results'' = Some (JArr dets)"
      and "list_all is_detection dets"
      and "JObj kvs \<in> set dets"
      and "map_of kvs ''name'' = Some (JStr s)"
      and "lower s \<notin> normal_labels"
  shows "interpret_results (JObj resp) = Inr (''Kidney Stone Detected'', JArr dets, True)"
proof -
  from assms(4) obtain d ds where dets: "dets = d # ds"
    by (cases dets) auto
  have "non_normal (JObj kvs) = Inr True"
    using assms(5,6) by (simp add: non_normal_named)
  with assms(3,4) have "has_non_normal dets = Inr True"
    by (auto simp: has_non_normal_detections)
  with assms(1,2) dets show ?thesis
    by (simp add: interpret_results_first_group)
qed

theorem interpret_results_positive_witness:
  "lower ''Stone'' \<notin> normal_labels \<and>
   interpret_results
     (JObj [(''images'', JArr [JObj [(''results'',
        JArr [JObj [(''name'', JStr ''normal'')],
              JObj [(''name'', JStr ''Stone''), (''confidence'', JFloat (9 / 10))]])]])])
   = Inr (''Kidney Stone Detected'',
          JArr [JObj [(''name'', JStr ''normal'')],
                JObj [(''name'', JStr ''Stone''), (''confidence'', JFloat (9 / 10))]],
          True)"
proof -
  have h: "lower ''Stone'' \<notin> normal_labels"
    by code_simp
  show ?thesis
    using h interpret_results_positive
      [of "[(''images'', JArr [JObj [(''results'',
              JArr [JObj [(''name'', JStr ''normal'')],
                    JObj [(''name'', JStr ''Stone''), (''confidence'', JFloat (9 / 10))]])]])]"
          "[(''results'',
              JArr [JObj [(''name'', JStr ''normal'')],
                    JObj [(''name'', JStr ''Stone''), (''confidence'', JFloat (9 / 10))]])]"
          "[]"
          "[JObj [(''name'', JStr ''normal'')],
            JObj [(''name'', JStr ''Stone''), (''confidence'', JFloat (9 / 10))]]"
          "[(''name'', JStr ''Stone''), (''confidence'', JFloat (9 / 10))]"
          "''Stone''"]
    by simp
qed

text \<open>
  C2. The claim is that the label test of \<open>interpret_results\<close> ignores case and
  surrounding whitespace. The test lower-cases the name and does not strip it: a single
  detection named \<open>normal\<close> followed by a space gives the positive verdict. The renderer
  strips the name before the same comparison, so it outlines that detection in green.
\<close>

theorem interpret_results_trailing_space:
  "interpret_results
     (JObj [(''images'', JArr [JObj [(''results'',
        JArr [JObj [(''name'', JStr ''normal ''),
                    (''box'', JObj [(''x1'', JInt 10), (''y1'', JInt 10),
                                    (''x2'', JInt 50), (''y2'', JInt 50)])]])]])])
   = Inr (''Kidney Stone Detected'',
          JArr [JObj [(''name'', JStr ''normal ''),
                      (''box'', JObj [(''x1'', JInt 10), (''y1'', JInt 10),
                                      (''x2'', JInt 50), (''y2'', JInt 50)])]],
          True)
   \<and>
   draw_det rectangle img
     (JObj [(''name'', JStr ''normal ''),
            (''box'', JObj [(''x1'', JInt 10), (''y1'', JInt 10),
                            (''x2'', JInt 50), (''y2'', JInt 50)])])
   = rectangle img
       \<lparr>xy = [JInt 10, JInt 10, JInt 50, JInt 50], fill = None,
        outline = Some ''green'', width = 3\<rparr>"
  by (simp add: interpret_results_def has_non_normal_def non_normal_def draw_det_def py_or_def
        strip_def isspace_def lower_def lower_char_def normal_labels_def)

text \<open>
  C3. When the first image group exists and its detection list is empty (or the group has
  no \<open>results\<close> entry, which reads as the empty list), \<open>interpret_results\<close> returns
  the normal message, the empty list and \<open>False\<close>.
\<close>

theorem interpret_results_empty_detections:
  assumes "map_of resp ''images'' = Some (JArr (JObj grp # grps))"
      and "map_of grp ''results'' = None \<or> map_of grp ''results'' = Some (JArr [])"
  shows "interpret_results (JObj resp) =
           Inr (''Normal Kidney (no stones detected)'', JArr [], False)"
  using assms by (auto simp: interpret_results_def)

theorem interpret_results_empty_detections_witness:
  "interpret_results (JObj [(''images'', JArr [JObj [(''results'', JArr [])]])])
   = Inr (''Normal Kidney (no stones detected)'', JArr [], False)"
  using interpret_results_empty_detections
    [of "[(''images'', JArr [JObj [(''results'', JArr [])]])]" "[(''results'', JArr [])]" "[]"]
  by simp

text \<open>
  C4. When the response has no image group, the \<open>images\<close> entry being absent or the
  empty list, \<open>interpret_results\<close> returns \<open>No prediction available\<close>, the empty list
  and \<open>False\<close>.
\<close>

theorem interpret_results_no_groups:
  assumes "map_of resp ''images'' = None \<or> map_of resp ''images'' = Some (JArr [])"
  shows "interpret_results (JObj resp) = Inr (''No prediction available'', JArr [], False)"
  using assms by (auto simp: interpret_results_def)

theorem interpret_results_no_groups_witness:
  "interpret_results (JObj [(''images'', JArr [])]) =
     Inr (''No prediction available'', JArr [], False)
   \<and> interpret_results (JObj []) = Inr (''No prediction available'', JArr [], False)"
  using interpret_results_no_groups [of "[(''images'', JArr [])]"]
        interpret_results_no_groups [of "[]"]
  by simp

section \<open>The credential check\<close>

text \<open>
  C5. The configured credential is \<open>API_KEY\<close>: the value of the environment variable, or
  the built-in default when the variable is unset. When it is empty,
  \<open>call_ultralytics_api\<close> raises \<open>RuntimeError\<close> with the message that the key is
  missing, and the log of requests is returned as it was: nothing has been sent. No other
  path of the function raises \<open>RuntimeError\<close>, so a failure of the network or of the
  service is never reported as a missing key.
\<close>

theorem call_ultralytics_api_missing_key:
  "(API_KEY env = [] \<longrightarrow>
      call_ultralytics_api env post loads image_bytes sent =
        (Inl (RuntimeError
           ''Ultralytics API key is missing. Set ULTRALYTICS_API_KEY env var or edit app.py.''),
         sent))
   \<and> (\<forall>m. fst (call_ultralytics_api env post loads image_bytes sent) = Inl (RuntimeError m)
          \<longrightarrow> API_KEY env = [])"
  by (auto simp: call_ultralytics_api_def raise_for_status_def Let_def
           split: sum.splits option.splits if_splits)

theorem call_ultralytics_api_missing_key_witness:
  "API_KEY [''ULTRALYTICS_API_KEY'' \<mapsto> []] = [] \<and>
   call_ultralytics_api [''ULTRALYTICS_API_KEY'' \<mapsto> []] (\<lambda>r. Inl Timeout) (\<lambda>s. None)
       [0xFF, 0xD8] [] =
     (Inl (RuntimeError
        ''Ultralytics API key is missing. Set ULTRALYTICS_API_KEY env var or edit app.py.''),
      [])"
proof -
  have k: "API_KEY [''ULTRALYTICS_API_KEY'' \<mapsto> []] = []"
    by (simp add: API_KEY_def getenv_def)
  show ?thesis
    using k call_ultralytics_api_missing_key
      [of "[''ULTRALYTICS_API_KEY'' \<mapsto> []]" "\<lambda>r. Inl Timeout" "\<lambda>s. None" "[0xFF, 0xD8]" "[]"]
    by simp
qed

section \<open>The renderer\<close>

text \<open>
  C6. A detection whose box is absent, null, or an object that lacks one of \<open>x1\<close>,
  \<open>y1\<close>, \<open>x2\<close>, \<open>y2\<close> (or holds null for it) is skipped by
  \<open>draw_bounding_boxes\<close>: its turn of the loop returns the image as it was, without
  calling \<open>rectangle\<close> and without raising, and the whole call gives what it gives on
  the list without that detection, so the detections around it are drawn as before.
\<close>

theorem draw_bounding_boxes_skips_incomplete:
  assumes "map_of kvs ''box'' = None \<or> map_of kvs ''box'' = Some JNull \<or>
           (\<exists>bk. map_of kvs ''box'' = Some (JObj bk) \<and> coordinate_missing bk)"
  shows "draw_det rectangle img (JObj kvs) = Inr img \<and>
         draw_bounding_boxes Image_open convert rectangle image_bytes
           (JArr (pre @ JObj kvs # post)) =
         draw_bounding_boxes Image_open convert rectangle image_bytes (JArr (pre @ post))"
proof -
  have skip: "draw_det rectangle i (JObj kvs) = Inr i" for i
    using assms by (rule draw_det_skips)
  have "draw_loop rectangle i (pre @ JObj kvs # post) = draw_loop rectangle i (pre @ post)" for i
    using skip by (rule draw_loop_skip)
  then show ?thesis
    using skip by (simp add: draw_bounding_boxes_def py_iter_detections split: sum.splits)
qed

theorem draw_bounding_boxes_skips_incomplete_witness:
  "draw_bounding_boxes (\<lambda>bytes. Inr []) (\<lambda>im mode. Inr im) (\<lambda>log c. Inr (log @ [c]))
       [0xFF, 0xD8]
     (JArr [JObj [(''name'', JStr ''Stone''),
                  (''box'', JObj [(''x1'', JInt 10), (''y1'', JInt 10), (''x2'', JNull)])],
            JObj [(''name'', JStr ''Stone''),
                  (''box'', JObj [(''x1'', JInt 1), (''y1'', JInt 2),
                                  (''x2'', JInt 3), (''y2'', JInt 4)])]])
   = (Inr [\<lparr>xy = [JInt 1, JInt 2, JInt 3, JInt 4], fill = None,
            outline = Some ''red'', width = 3\<rparr>] :: error + rect_call list)"
proof -
  have miss: "coordinate_missing [(''x1'', JInt 10), (''y1'', JInt 10), (''x2'', JNull)]"
    by (simp add: coordinate_missing_def)
  have rest:
    "draw_bounding_boxes (\<lambda>bytes. Inr []) (\<lambda>im mode. Inr im) (\<lambda>log c. Inr (log @ [c]))
       [0xFF, 0xD8]
       (JArr [JObj [(''name'', JStr ''Stone''),
                    (''box'', JObj [(''x1'', JInt 1), (''y1'', JInt 2),
                                    (''x2'', JInt 3), (''y2'', JInt 4)])]])
     = (Inr [\<lparr>xy = [JInt 1, JInt 2, JInt 3, JInt 4], fill = None,
              outline = Some ''red'', width = 3\<rparr>] :: error + rect_call list)"
    by code_simp
  show ?thesis
    using miss rest
      draw_bounding_boxes_skips_incomplete
        [of "[(''name'', JStr ''Stone''),
              (''box'', JObj [(''x1'', JInt 10), (''y1'', JInt 10), (''x2'', JNull)])]"
            "\<lambda>log c. Inr (log @ [c])" "[] :: rect_call list"
            "\<lambda>bytes. Inr []" "\<lambda>im mode. Inr im" "[0xFF, 0xD8]" "[]"
            "[JObj [(''name'', JStr ''Stone''),
                    (''box'', JObj [(''x1'', JInt 1), (''y1'', JInt 2),
                                    (''x2'', JInt 3), (''y2'', JInt 4)])]]"]
    by simp
qed



text \<open>
  C8, as the code has it. On the response whose only group has an empty detection list,
  \<open>interpret_results\<close> returns the normal message, the empty list and \<open>False\<close>. Given
  that list, \<open>draw_bounding_boxes\<close> makes no call of \<open>rectangle\<close>: whatever
  \<open>rectangle\<close> is, the result is the opened image after its conversion to RGB. It is
  the opened image itself when that conversion leaves the image as it is. The bytes are a
  value passed in and are not part of the result.
\<close>

theorem scenario_empty_results:
  "interpret_results (JObj [(''images'', JArr [JObj [(''results'', JArr [])]])])
     = Inr (''Normal Kidney (no stones detected)'', JArr [], False)
   \<and> draw_bounding_boxes Image_open convert rectangle image_bytes (JArr []) =
       (case Image_open image_bytes of
          Inl e \<Rightarrow> Inl e
        | Inr opened \<Rightarrow> convert opened ''RGB'')
   \<and> (Image_open image_bytes = Inr opened \<longrightarrow> convert opened ''RGB'' = Inr opened \<longrightarrow>
        draw_bounding_boxes Image_open convert rectangle image_bytes (JArr []) = Inr opened)"
  by (simp add: interpret_results_def draw_bounding_boxes_def py_or_def split: sum.splits)

theorem scenario_empty_results_witness:
  "decode_to \<lparr>mode = ''RGB'', pixels = [[255, 0, 0]], drawn = []\<rparr> [0xFF, 0xD8] =
     Inr \<lparr>mode = ''RGB'', pixels = [[255, 0, 0]], drawn = []\<rparr>
   \<and> convert_bands \<lparr>mode = ''RGB'', pixels = [[255, 0, 0]], drawn = []\<rparr> ''RGB'' =
     Inr \<lparr>mode = ''RGB'', pixels = [[255, 0, 0]], drawn = []\<rparr>
   \<and> draw_bounding_boxes (decode_to \<lparr>mode = ''RGB'', pixels = [[255, 0, 0]], drawn = []\<rparr>)
       convert_bands record_rectangle [0xFF, 0xD8] (JArr []) =
     Inr \<lparr>mode = ''RGB'', pixels = [[255, 0, 0]], drawn = []\<rparr>"
proof -
  have opened: "decode_to \<lparr>mode = ''RGB'', pixels = [[255, 0, 0]], drawn = []\<rparr> [0xFF, 0xD8] =
      Inr \<lparr>mode = ''RGB'', pixels = [[255, 0, 0]], drawn = []\<rparr>"
    by (simp add: decode_to_def)
  have same: "convert_bands \<lparr>mode = ''RGB'', pixels = [[255, 0, 0]], drawn = []\<rparr> ''RGB'' =
      Inr \<lparr>mode = ''RGB'', pixels = [[255, 0, 0]], drawn = []\<rparr>"
    by (simp add: convert_bands_def)
  show ?thesis
    using opened same
      scenario_empty_results
        [of "decode_to \<lparr>mode = ''RGB'', pixels = [[255, 0, 0]], drawn = []\<rparr>"
            convert_bands record_rectangle "[0xFF, 0xD8]"
            "\<lparr>mode = ''RGB'', pixels = [[255, 0, 0]], drawn = []\<rparr>"]
    by simp
qed

text \<open>
  C8, as the claim has it, asks for a result identical to the input image. On bytes that
  decode to an RGBA image the result is the image converted to RGB, without its alpha
  band, which is not the image that was opened.
\<close>

theorem scenario_empty_results_counterexample:
  "draw_bounding_boxes (decode_to \<lparr>mode = ''RGBA'', pixels = [[255, 0, 0, 128]], drawn = []\<rparr>)
       convert_bands record_rectangle [0x89, 0x50, 0x4E, 0x47] (JArr []) =
     Inr \<lparr>mode = ''RGB'', pixels = [[255, 0, 0]], drawn = []\<rparr>
   \<and> draw_bounding_boxes (decode_to \<lparr>mode = ''RGBA'', pixels = [[255, 0, 0, 128]], drawn = []\<rparr>)
       convert_bands record_rectangle [0x89, 0x50, 0x4E, 0x47] (JArr []) \<noteq>
     decode_to \<lparr>mode = ''RGBA'', pixels = [[255, 0, 0, 128]], drawn = []\<rparr>
       [0x89, 0x50, 0x4E, 0x47]"
  by (simp add: draw_bounding_boxes_def decode_to_def convert_bands_def py_or_def)

section \<open>Unnamed detections and the consistency of the verdict\<close>

text \<open>
  C9. A detection whose name is absent or null is read as the empty label, which is not a
  normal label: the label test answers true for it, and a list of detections that
  contains it gives the positive verdict.
\<close>

theorem interpret_results_unnamed_positive:
  assumes "map_of resp ''images'' = Some (JArr (JObj grp # grps))"
      and "map_of grp ''results'' = Some (JArr dets)"
      and "list_all is_detection dets"
      and "JObj kvs \<in> set dets"
      and "map_of kvs ''name'' = None \<or> map_of kvs ''name'' = Some JNull"
  shows "non_normal (JObj kvs) = Inr True \<and>
         interpret_results (JObj resp) = Inr (''Kidney Stone Detected'', JArr dets, True)"
proof -
  from assms(4) obtain d ds where dets: "dets = d # ds"
    by (cases dets) auto
  have nn: "non_normal (JObj kvs) = Inr True"
    using assms(5) by (rule non_normal_unnamed)
  with assms(3,4) have "has_non_normal dets = Inr True"
    by (auto simp: has_non_normal_detections)
  with assms(1,2) dets nn show ?thesis
    by (simp add: interpret_results_first_group)
qed

theorem interpret_results_unnamed_positive_witness:
  "interpret_results
     (JObj [(''images'', JArr [JObj [(''results'',
        JArr [JObj [(''name'', JStr ''normal'')], JObj [(''name'', JNull)]])]])])
   = Inr (''Kidney Stone Detected'',
          JArr [JObj [(''name'', JStr ''normal'')], JObj [(''name'', JNull)]], True)"
  using interpret_results_unnamed_positive
      [of "[(''images'', JArr [JObj [(''results'',
              JArr [JObj [(''name'', JStr ''normal'')], JObj [(''name'', JNull)]])]])]"
          "[(''results'', JArr [JObj [(''name'', JStr ''normal'')], JObj [(''name'', JNull)]])]"
          "[]"
          "[JObj [(''name'', JStr ''normal'')], JObj [(''name'', JNull)]]"
          "[(''name'', JNull)]"]
  by simp

text \<open>
  C10. Whatever the input, when \<open>interpret_results\<close> returns, the boolean is true
  exactly when the message is \<open>Kidney Stone Detected\<close>, and a true boolean comes with
  a non-empty list of detections.
\<close>

theorem interpret_results_consistent:
  assumes "interpret_results result_json = Inr (message, detections, positive)"
  shows "(positive \<longleftrightarrow> message = ''Kidney Stone Detected'') \<and>
         (positive \<longrightarrow> (\<exists>d ds. detections = JArr (d # ds)))"
  using assms
  by (auto simp: interpret_results_def split: sum.splits if_splits
           dest: has_non_normal_True_list)

theorem interpret_results_consistent_witness:
  "interpret_results
     (JObj [(''images'', JArr [JObj [(''results'', JArr [JObj [(''name'', JStr ''Stone'')]])]])])
     = Inr (''Kidney Stone Detected'', JArr [JObj [(''name'', JStr ''Stone'')]], True)
   \<and> (True \<longleftrightarrow> ''Kidney Stone Detected'' = ''Kidney Stone Detected'')
   \<and> (\<exists>d ds. JArr [JObj [(''name'', JStr ''Stone'')]] = JArr (d # ds))"
proof -
  have run: "interpret_results
     (JObj [(''images'', JArr [JObj [(''results'', JArr [JObj [(''name'', JStr ''Stone'')]])]])])
     = Inr (''Kidney Stone Detected'', JArr [JObj [(''name'', JStr ''Stone'')]], True)"
    by code_simp
  show ?thesis
    using run interpret_results_consistent [OF run] by simp
qed

end
